theory Spec2Isabelle
  imports Complex_Main
begin

section \<open>Floating-point values\<close>

text \<open>
  \<^verbatim>\<open>ShortReal\<close> and \<^verbatim>\<open>Scalar\<close> are the floating-point typedefs of
  \<^verbatim>\<open>hoomd/HOOMDMath.h\<close> (not part of this repository). A value is modelled as a finite
  real number or one of the three IEEE 754 special values. The arithmetic follows
  IEEE 754 on the special values (a division by zero gives an infinity or a NaN and
  raises nothing, every comparison with a NaN is false, \<^verbatim>\<open>!=\<close> with a NaN is true)
  and is exact on finite values: rounding, overflow, underflow and the sign of zero
  are not modelled. The conversion between \<^verbatim>\<open>ShortReal\<close> and \<^verbatim>\<open>Scalar\<close>
  is therefore the identity.

  For that reason every theorem below is of one of two kinds, which hold of a
  floating-point run as they hold here: a statement about the control flow or an
  identity between expressions built from the same operations on both sides, which does
  not depend on what an operation returns for finite operands; or an evaluation at
  inputs where every intermediate value is a small integer or a short binary fraction
  (such as 63 / 1024), on which floating-point arithmetic is exact.
\<close>

datatype ShortReal = Fin real | PInf | NInf | NaN

type_synonym Scalar = ShortReal

instantiation ShortReal :: "{times, minus, inverse, ord}"
begin

fun times_ShortReal :: "ShortReal \<Rightarrow> ShortReal \<Rightarrow> ShortReal" where
  "times_ShortReal NaN y = NaN"
| "times_ShortReal x NaN = NaN"
| "times_ShortReal (Fin a) (Fin b) = Fin (a * b)"
| "times_ShortReal (Fin a) PInf = (if a = 0 then NaN else if 0 < a then PInf else NInf)"
| "times_ShortReal (Fin a) NInf = (if a = 0 then NaN else if 0 < a then NInf else PInf)"
| "times_ShortReal PInf (Fin b) = (if b = 0 then NaN else if 0 < b then PInf else NInf)"
| "times_ShortReal NInf (Fin b) = (if b = 0 then NaN else if 0 < b then NInf else PInf)"
| "times_ShortReal PInf PInf = PInf"
| "times_ShortReal PInf NInf = NInf"
| "times_ShortReal NInf PInf = NInf"
| "times_ShortReal NInf NInf = PInf"

fun minus_ShortReal :: "ShortReal \<Rightarrow> ShortReal \<Rightarrow> ShortReal" where
  "minus_ShortReal NaN y = NaN"
| "minus_ShortReal x NaN = NaN"
| "minus_ShortReal (Fin a) (Fin b) = Fin (a - b)"
| "minus_ShortReal (Fin a) PInf = NInf"
| "minus_ShortReal (Fin a) NInf = PInf"
| "minus_ShortReal PInf (Fin b) = PInf"
| "minus_ShortReal NInf (Fin b) = NInf"
| "minus_ShortReal PInf PInf = NaN"
| "minus_ShortReal PInf NInf = PInf"
| "minus_ShortReal NInf PInf = NInf"
| "minus_ShortReal NInf NInf = NaN"

fun divide_ShortReal :: "ShortReal \<Rightarrow> ShortReal \<Rightarrow> ShortReal" where
  "divide_ShortReal NaN y = NaN"
| "divide_ShortReal x NaN = NaN"
| "divide_ShortReal (Fin a) (Fin b) =
     (if b = 0 then (if a = 0 then NaN else if 0 < a then PInf else NInf)
      else Fin (a / b))"
| "divide_ShortReal (Fin a) PInf = Fin 0"
| "divide_ShortReal (Fin a) NInf = Fin 0"
| "divide_ShortReal PInf (Fin b) = (if 0 \<le> b then PInf else NInf)"
| "divide_ShortReal NInf (Fin b) = (if 0 \<le> b then NInf else PInf)"
| "divide_ShortReal PInf PInf = NaN"
| "divide_ShortReal PInf NInf = NaN"
| "divide_ShortReal NInf PInf = NaN"
| "divide_ShortReal NInf NInf = NaN"

fun inverse_ShortReal :: "ShortReal \<Rightarrow> ShortReal" where
  "inverse_ShortReal (Fin b) = (if b = 0 then PInf else Fin (1 / b))"
| "inverse_ShortReal PInf = Fin 0"
| "inverse_ShortReal NInf = Fin 0"
| "inverse_ShortReal NaN = NaN"

fun less_ShortReal :: "ShortReal \<Rightarrow> ShortReal \<Rightarrow> bool" where
  "less_ShortReal (Fin a) (Fin b) = (a < b)"
| "less_ShortReal (Fin a) PInf = True"
| "less_ShortReal NInf (Fin b) = True"
| "less_ShortReal NInf PInf = True"
| "less_ShortReal x y = False"

fun less_eq_ShortReal :: "ShortReal \<Rightarrow> ShortReal \<Rightarrow> bool" where
  "less_eq_ShortReal (Fin a) (Fin b) = (a \<le> b)"
| "less_eq_ShortReal (Fin a) PInf = True"
| "less_eq_ShortReal NInf (Fin b) = True"
| "less_eq_ShortReal NInf PInf = True"
| "less_eq_ShortReal PInf PInf = True"
| "less_eq_ShortReal NInf NInf = True"
| "less_eq_ShortReal x y = False"

instance ..

end

text \<open>The operator \<^verbatim>\<open>!=\<close> of C++ on floating-point operands: true when an operand is a NaN.\<close>

fun neq :: "ShortReal \<Rightarrow> ShortReal \<Rightarrow> bool" where
  "neq NaN y = True"
| "neq x NaN = True"
| "neq x y = (x \<noteq> y)"

text \<open>
  \<^verbatim>\<open>pow\<close> of the C library, after the special cases of C11 Annex F.10.4.4. An
  exponent with an integer value gives the exact integer power, also of a negative
  base; a negative finite base with any other finite exponent gives a NaN.
\<close>

definition is_integer :: "real \<Rightarrow> bool" where
  "is_integer y = (y = of_int \<lfloor>y\<rfloor>)"

definition pow_finite :: "real \<Rightarrow> real \<Rightarrow> ShortReal" where
  "pow_finite x y =
     (if y = 0 then Fin 1
      else if x = 0 then (if y < 0 then PInf else Fin 0)
      else if is_integer y then
        Fin (if 0 \<le> y then x ^ nat \<lfloor>y\<rfloor> else 1 / x ^ nat \<lfloor>- y\<rfloor>)
      else if x < 0 then NaN
      else Fin (x powr y))"

fun pow :: "ShortReal \<Rightarrow> ShortReal \<Rightarrow> ShortReal" where
  "pow x (Fin y) =
     (if y = 0 then Fin 1
      else case x of
        Fin a \<Rightarrow> pow_finite a y
      | PInf \<Rightarrow> (if y < 0 then Fin 0 else PInf)
      | NInf \<Rightarrow> (if y < 0 then Fin 0
                 else if is_integer y \<and> odd \<lfloor>y\<rfloor> then NInf else PInf)
      | NaN \<Rightarrow> NaN)"
| "pow x PInf =
     (case x of
        Fin a \<Rightarrow> (if \<bar>a\<bar> = 1 then Fin 1 else if \<bar>a\<bar> < 1 then Fin 0 else PInf)
      | PInf \<Rightarrow> PInf
      | NInf \<Rightarrow> PInf
      | NaN \<Rightarrow> NaN)"
| "pow x NInf =
     (case x of
        Fin a \<Rightarrow> (if \<bar>a\<bar> = 1 then Fin 1 else if \<bar>a\<bar> < 1 then PInf else Fin 0)
      | PInf \<Rightarrow> Fin 0
      | NInf \<Rightarrow> Fin 0
      | NaN \<Rightarrow> NaN)"
| "pow x NaN = (if x = Fin 1 then Fin 1 else NaN)"

declare pow.simps [simp del]

section \<open>The parameters of a type pair\<close>

text \<open>\<^verbatim>\<open>struct param_type\<close> (EvaluatorPairLJLow.h, lines 140-184).\<close>

record param_type =
  lj1 :: ShortReal
  lj2 :: ShortReal

text \<open>\<^verbatim>\<open>param_type() : lj1(0), lj2(0)\<close> (line 158).\<close>

definition param_type_default :: param_type where
  "param_type_default = \<lparr>lj1 = Fin 0, lj2 = Fin 0\<rparr>"

text \<open>
  \<^verbatim>\<open>param_type(ShortReal sigma, ShortReal epsilon, bool managed = false)\<close>
  (lines 169-173).
\<close>

definition param_type :: "ShortReal \<Rightarrow> ShortReal \<Rightarrow> bool \<Rightarrow> param_type" where
  "param_type sigma epsilon managed =
     \<lparr>lj1 = Fin 4 * epsilon * pow sigma (Fin 12),
      lj2 = Fin 4 * epsilon * pow sigma (Fin 6)\<rparr>"


section \<open>The evaluator\<close>

text \<open>
  The member variables of \<^verbatim>\<open>class EvaluatorPairLJLow\<close> (lines 283-288). The fields
  \<open>lj1\<close> and \<open>lj2\<close> of the evaluator hide those of the parameters, which are written
  \<open>param_type.lj1\<close> and \<open>param_type.lj2\<close> from here on.
\<close>

record EvaluatorPairLJLow =
  rsq :: ShortReal
  rcutsq :: ShortReal
  lj1 :: ShortReal
  lj2 :: ShortReal

text \<open>The constructor (lines 196-199): it copies its arguments and computes nothing.\<close>

definition EvaluatorPairLJLow :: "ShortReal \<Rightarrow> ShortReal \<Rightarrow> param_type \<Rightarrow> EvaluatorPairLJLow" where
  "EvaluatorPairLJLow rsq' rcutsq' params =
     \<lparr>rsq = rsq', rcutsq = rcutsq', lj1 = param_type.lj1 params, lj2 = param_type.lj2 params\<rparr>"

text \<open>Lines 202-221. The setters have empty bodies; the evaluator is returned as it was.\<close>

definition needsDiameter :: bool where
  "needsDiameter = False"

definition setDiameter :: "EvaluatorPairLJLow \<Rightarrow> Scalar \<Rightarrow> Scalar \<Rightarrow> EvaluatorPairLJLow" where
  "setDiameter ev di dj = ev"

definition needsCharge :: bool where
  "needsCharge = False"

definition setCharge :: "EvaluatorPairLJLow \<Rightarrow> Scalar \<Rightarrow> Scalar \<Rightarrow> EvaluatorPairLJLow" where
  "setCharge ev qi qj = ev"

text \<open>
  \<^verbatim>\<open>evalForceAndEnergy\<close> (lines 234-255). The out-parameters
  \<^verbatim>\<open>Scalar& force_divr\<close> and \<^verbatim>\<open>Scalar& pair_eng\<close> are passed in with the values
  the caller holds and returned beside the flag; the \<^verbatim>\<open>else\<close> branch writes
  neither. The body has no \<^verbatim>\<open>throw\<close> and calls no function, so the result has no
  error alternative.
\<close>

definition evalForceAndEnergy ::
    "EvaluatorPairLJLow \<Rightarrow> Scalar \<Rightarrow> Scalar \<Rightarrow> bool \<Rightarrow> bool \<times> Scalar \<times> Scalar" where
  "evalForceAndEnergy ev force_divr pair_eng energy_shift =
     (if rsq ev < rcutsq ev \<and> neq (lj1 ev) (Fin 0) then
        let r2inv = Fin 1 / rsq ev;
            r6inv = r2inv * r2inv * r2inv;
            force_divr = r2inv * r6inv * (Fin 12 * lj1 ev * r6inv - Fin 6 * lj2 ev);
            pair_eng = r6inv * (lj1 ev * r6inv - lj2 ev);
            pair_eng =
              (if energy_shift then
                 let rcut2inv = Fin 1 / rcutsq ev;
                     rcut6inv = rcut2inv * rcut2inv * rcut2inv
                 in pair_eng - rcut6inv * (lj1 ev * rcut6inv - lj2 ev)
               else pair_eng)
        in (True, force_divr, pair_eng)
      else (False, force_divr, pair_eng))"

text \<open>
  The kernel of lines 237-254 once more, with each of its two divisions guarded: a
  division whose divisor is zero gives \<open>None\<close> in place of a quotient, and the call
  gives \<open>None\<close> with it. Nothing else differs from \<open>evalForceAndEnergy\<close>.
\<close>

definition divide_guarded :: "ShortReal \<Rightarrow> ShortReal \<Rightarrow> ShortReal option" where
  "divide_guarded a b = (if neq b (Fin 0) then Some (a / b) else None)"

definition evalForceAndEnergy_guarded ::
    "EvaluatorPairLJLow \<Rightarrow> Scalar \<Rightarrow> Scalar \<Rightarrow> bool \<Rightarrow> (bool \<times> Scalar \<times> Scalar) option" where
  "evalForceAndEnergy_guarded ev force_divr pair_eng energy_shift =
     (if rsq ev < rcutsq ev \<and> neq (lj1 ev) (Fin 0) then
        case divide_guarded (Fin 1) (rsq ev) of
          None \<Rightarrow> None
        | Some r2inv \<Rightarrow>
            let r6inv = r2inv * r2inv * r2inv;
                force_divr = r2inv * r6inv * (Fin 12 * lj1 ev * r6inv - Fin 6 * lj2 ev);
                pair_eng = r6inv * (lj1 ev * r6inv - lj2 ev)
            in if energy_shift then
                 case divide_guarded (Fin 1) (rcutsq ev) of
                   None \<Rightarrow> None
                 | Some rcut2inv \<Rightarrow>
                     let rcut6inv = rcut2inv * rcut2inv * rcut2inv
                     in Some (True, force_divr,
                              pair_eng - rcut6inv * (lj1 ev * rcut6inv - lj2 ev))
               else Some (True, force_divr, pair_eng)
      else Some (False, force_divr, pair_eng))"

text \<open>Lines 257-265.\<close>

definition evalPressureLRCIntegral :: "EvaluatorPairLJLow \<Rightarrow> Scalar" where
  "evalPressureLRCIntegral ev = Fin 0"

definition evalEnergyLRCIntegral :: "EvaluatorPairLJLow \<Rightarrow> Scalar" where
  "evalEnergyLRCIntegral ev = Fin 0"

text \<open>
  Lines 271-279. \<^verbatim>\<open>getShapeSpec\<close> is a single \<^verbatim>\<open>throw std::runtime_error(...)\<close>.
\<close>

datatype error = runtime_error string

definition getName :: string where
  "getName = ''ljlow''"

definition getShapeSpec :: "EvaluatorPairLJLow \<Rightarrow> error + string" where
  "getShapeSpec ev = Inl (runtime_error ''Shape definition not supported for this pair potential.'')"

text \<open>
  What an error message says: \<open>mentions message word\<close> holds when \<open>word\<close> occurs in
  \<open>message\<close> as a contiguous substring, upper and lower case letters taken as equal.
\<close>

fun starts_with :: "string \<Rightarrow> string \<Rightarrow> bool" where
  "starts_with s [] = True"
| "starts_with [] (c # p) = False"
| "starts_with (d # s) (c # p) = (d = c \<and> starts_with s p)"

fun contains :: "string \<Rightarrow> string \<Rightarrow> bool" where
  "contains [] p = starts_with [] p"
| "contains (d # s) p = (if starts_with (d # s) p then True else contains s p)"

definition lower_char :: "char \<Rightarrow> char" where
  "lower_char c =
     (case map_of (zip ''ABCDEFGHIJKLMNOPQRSTUVWXYZ'' ''abcdefghijklmnopqrstuvwxyz'') c of
        Some d \<Rightarrow> d
      | None \<Rightarrow> c)"

definition mentions :: "string \<Rightarrow> string \<Rightarrow> bool" where
  "mentions message word = contains (map lower_char message) (map lower_char word)"

section \<open>Facts about the arithmetic\<close>

lemma neq_zero: "neq x (Fin 0) = (x \<noteq> Fin 0)"
  by (cases x) simp_all

lemma less_irrefl_ShortReal: "\<not> (x::ShortReal) < x"
  by (cases x) simp_all

lemma pos_less_cases:
  assumes "Fin 0 < x" and "x < y"
  shows "Fin 0 < y"
  using assms by (cases x; cases y) simp_all

lemma pos_neq_zero: "Fin 0 < x \<Longrightarrow> x \<noteq> Fin 0"
  by (cases x) simp_all


section \<open>Facts about the guarded kernel\<close>

text \<open>
  The guards are not idle: a valid pair with \<open>rsq = 0\<close> stops at the first division,
  and a valid pair with \<open>rcutsq = 0\<close> (hence \<open>rsq < 0\<close>) stops at the second when the
  shift is requested.
\<close>

lemma guarded_stops_at_zero_rsq:
  "evalForceAndEnergy_guarded \<lparr>rsq = Fin 0, rcutsq = Fin 9, lj1 = Fin 4, lj2 = Fin 4\<rparr> f e energy_shift
     = None"
  by (simp add: evalForceAndEnergy_guarded_def divide_guarded_def)

lemma guarded_stops_at_zero_rcutsq:
  "evalForceAndEnergy_guarded \<lparr>rsq = Fin (- 1), rcutsq = Fin 0, lj1 = Fin 4, lj2 = Fin 4\<rparr> f e True
     = None"
  by (simp add: evalForceAndEnergy_guarded_def divide_guarded_def Let_def)

section \<open>Facts about the message of \<open>getShapeSpec\<close>\<close>

lemma message_mentions_capability:
  "mentions ''Shape definition not supported for this pair potential.'' ''Shape definition''"
  by code_simp

lemma message_mentions_not_supported:
  "mentions ''Shape definition not supported for this pair potential.'' ''not supported''"
  by code_simp

lemma message_omits_name:
  "\<not> mentions ''Shape definition not supported for this pair potential.'' getName"
  by code_simp

lemma message_omits_LJ:
  "\<not> mentions ''Shape definition not supported for this pair potential.'' ''LJ''"
  by code_simp

section \<open>The validity flag\<close>

text \<open>
  C1. For every stored \<open>rsq\<close>, \<open>rcutsq\<close>, \<open>lj1\<close> and \<open>lj2\<close> (infinities and NaN
  included), every value the out-parameters hold before the call and every
  \<open>energy_shift\<close>, \<open>evalForceAndEnergy\<close> returns \<open>true\<close> exactly when
  \<open>rsq < rcutsq\<close> and \<open>lj1 != 0\<close>. It returns a triple in every case (the function is
  total and its result type has no error alternative), and when it returns \<open>false\<close> the
  out-parameters are not written: they keep what the caller passed in and say nothing
  about the pair.
\<close>

theorem evalForceAndEnergy_flag:
  "fst (evalForceAndEnergy ev force_divr pair_eng energy_shift)
     = (rsq ev < rcutsq ev \<and> neq (lj1 ev) (Fin 0))
   \<and> (\<not> fst (evalForceAndEnergy ev force_divr pair_eng energy_shift)
        \<longrightarrow> evalForceAndEnergy ev force_divr pair_eng energy_shift
              = (False, force_divr, pair_eng))"
  by (simp add: evalForceAndEnergy_def Let_def)

theorem evalForceAndEnergy_flag_witness:
  "fst (evalForceAndEnergy \<lparr>rsq = Fin 10, rcutsq = Fin 9, lj1 = Fin 4, lj2 = Fin 4\<rparr> (Fin 7) (Fin 5) True)
     = (Fin 10 < Fin 9 \<and> neq (Fin 4) (Fin 0))
   \<and> \<not> fst (evalForceAndEnergy \<lparr>rsq = Fin 10, rcutsq = Fin 9, lj1 = Fin 4, lj2 = Fin 4\<rparr> (Fin 7) (Fin 5) True)
   \<and> evalForceAndEnergy \<lparr>rsq = Fin 10, rcutsq = Fin 9, lj1 = Fin 4, lj2 = Fin 4\<rparr> (Fin 7) (Fin 5) True
       = (False, Fin 7, Fin 5)"
  using evalForceAndEnergy_flag
    [of "\<lparr>rsq = Fin 10, rcutsq = Fin 9, lj1 = Fin 4, lj2 = Fin 4\<rparr>" "Fin 7" "Fin 5" True]
  by (simp add: evalForceAndEnergy_def)

section \<open>Force and energy\<close>

text \<open>
  C2. For every valid input (\<open>rsq < rcutsq\<close> and \<open>lj1 != 0\<close>) and \<open>energy_shift\<close>
  false, \<open>evalForceAndEnergy\<close> returns \<open>true\<close> and sets
  \<open>force_divr = r2inv * r6inv * (12 * lj1 * r6inv - 6 * lj2)\<close> and
  \<open>pair_eng = r6inv * (lj1 * r6inv - lj2)\<close>, where \<open>r2inv = 1 / rsq\<close> and
  \<open>r6inv = r2inv * r2inv * r2inv\<close>, whatever the out-parameters held before.
\<close>

theorem evalForceAndEnergy_no_shift:
  assumes "rsq ev < rcutsq ev" and "neq (lj1 ev) (Fin 0)"
  shows "evalForceAndEnergy ev force_divr pair_eng False =
    (let r2inv = Fin 1 / rsq ev;
         r6inv = r2inv * r2inv * r2inv
     in (True,
         r2inv * r6inv * (Fin 12 * lj1 ev * r6inv - Fin 6 * lj2 ev),
         r6inv * (lj1 ev * r6inv - lj2 ev)))"
  using assms by (simp add: evalForceAndEnergy_def Let_def)

theorem evalForceAndEnergy_no_shift_witness:
  "Fin 4 < Fin 9 \<and> neq (Fin 3) (Fin 0) \<and>
   evalForceAndEnergy \<lparr>rsq = Fin 4, rcutsq = Fin 9, lj1 = Fin 3, lj2 = Fin 5\<rparr> (Fin 0) (Fin 0) False
     = (True, Fin (- 471 / 4096), Fin (- 317 / 4096))"
  using evalForceAndEnergy_no_shift
    [of "\<lparr>rsq = Fin 4, rcutsq = Fin 9, lj1 = Fin 3, lj2 = Fin 5\<rparr>" "Fin 0" "Fin 0"]
  by (simp add: Let_def)

text \<open>
  C3. For every valid input, the call with \<open>energy_shift\<close> true and the call with
  \<open>energy_shift\<close> false both return \<open>true\<close>, they set the same \<open>force_divr\<close>, and the
  \<open>pair_eng\<close> of the first is the \<open>pair_eng\<close> of the second minus
  \<open>rcut6inv * (lj1 * rcut6inv - lj2)\<close>, the energy formula at \<open>rcutsq\<close>, where
  \<open>rcut2inv = 1 / rcutsq\<close> and \<open>rcut6inv = rcut2inv * rcut2inv * rcut2inv\<close>. The
  values the out-parameters held before either call do not matter.
\<close>

theorem energy_shift_only_energy:
  assumes "rsq ev < rcutsq ev" and "neq (lj1 ev) (Fin 0)"
  shows "fst (evalForceAndEnergy ev f1 e1 True) = True
       \<and> fst (evalForceAndEnergy ev f0 e0 False) = True
       \<and> fst (snd (evalForceAndEnergy ev f1 e1 True)) = fst (snd (evalForceAndEnergy ev f0 e0 False))
       \<and> snd (snd (evalForceAndEnergy ev f1 e1 True))
           = (let rcut2inv = Fin 1 / rcutsq ev;
                  rcut6inv = rcut2inv * rcut2inv * rcut2inv
              in snd (snd (evalForceAndEnergy ev f0 e0 False))
                   - rcut6inv * (lj1 ev * rcut6inv - lj2 ev))"
  using assms by (simp add: evalForceAndEnergy_def Let_def)

theorem energy_shift_only_energy_witness:
  "Fin 1 < Fin 4 \<and> neq (Fin 4) (Fin 0)
   \<and> evalForceAndEnergy \<lparr>rsq = Fin 1, rcutsq = Fin 4, lj1 = Fin 4, lj2 = Fin 4\<rparr> (Fin 7) (Fin 8) True
       = (True, Fin 24, Fin (63 / 1024))
   \<and> evalForceAndEnergy \<lparr>rsq = Fin 1, rcutsq = Fin 4, lj1 = Fin 4, lj2 = Fin 4\<rparr> (Fin 2) (Fin 3) False
       = (True, Fin 24, Fin 0)"
  using energy_shift_only_energy
    [of "\<lparr>rsq = Fin 1, rcutsq = Fin 4, lj1 = Fin 4, lj2 = Fin 4\<rparr>" "Fin 7" "Fin 8" "Fin 2" "Fin 3"]
  by (simp add: evalForceAndEnergy_def Let_def)

text \<open>
  C4, as amended. With \<open>energy_shift\<close> true, an evaluation at \<open>rsq\<close> exactly equal to
  \<open>rcutsq\<close> is rejected, whatever \<open>lj1\<close> and \<open>lj2\<close> are: it returns \<open>false\<close> and
  writes neither out-parameter. The pair energy the caller holds after the call is the
  value it held before; it is 0 when the caller passed 0.
\<close>

theorem energy_shift_at_cutoff:
  assumes "rsq ev = rcutsq ev"
  shows "evalForceAndEnergy ev force_divr pair_eng True = (False, force_divr, pair_eng)
       \<and> snd (snd (evalForceAndEnergy ev force_divr (Fin 0) True)) = Fin 0"
  using assms by (simp add: evalForceAndEnergy_def less_irrefl_ShortReal)

theorem energy_shift_at_cutoff_witness:
  "rsq \<lparr>rsq = Fin 9, rcutsq = Fin 9, lj1 = Fin 4, lj2 = Fin 4\<rparr>
     = rcutsq \<lparr>rsq = Fin 9, rcutsq = Fin 9, lj1 = Fin 4, lj2 = Fin 4\<rparr>
   \<and> evalForceAndEnergy \<lparr>rsq = Fin 9, rcutsq = Fin 9, lj1 = Fin 4, lj2 = Fin 4\<rparr> (Fin 3) (Fin 5) True
       = (False, Fin 3, Fin 5)
   \<and> snd (snd (evalForceAndEnergy \<lparr>rsq = Fin 9, rcutsq = Fin 9, lj1 = Fin 4, lj2 = Fin 4\<rparr>
         (Fin 3) (Fin 0) True)) = Fin 0"
  using energy_shift_at_cutoff
    [of "\<lparr>rsq = Fin 9, rcutsq = Fin 9, lj1 = Fin 4, lj2 = Fin 4\<rparr>" "Fin 3" "Fin 5"]
  by simp

text \<open>
  The claim as it was stated fails at \<open>rsq = rcutsq = 9\<close> with \<open>lj1 = lj2 = 4\<close>: the
  test \<open>rsq < rcutsq\<close> of line 237 is false, the call returns \<open>false\<close>, and a
  \<open>pair_eng\<close> that held 7 before the call holds 7 after it, not 0.
\<close>

theorem energy_shift_at_cutoff_counterexample:
  "evalForceAndEnergy \<lparr>rsq = Fin 9, rcutsq = Fin 9, lj1 = Fin 4, lj2 = Fin 4\<rparr> (Fin 7) (Fin 7) True
     = (False, Fin 7, Fin 7)
   \<and> snd (snd (evalForceAndEnergy \<lparr>rsq = Fin 9, rcutsq = Fin 9, lj1 = Fin 4, lj2 = Fin 4\<rparr> (Fin 7) (Fin 7) True))
     \<noteq> Fin 0"
  by (simp add: evalForceAndEnergy_def)

text \<open>
  C5. When \<open>rsq > 0\<close>, every division \<open>evalForceAndEnergy\<close> executes has a nonzero
  divisor: \<open>1 / rsq\<close> is reached with \<open>rsq != 0\<close>, and \<open>1 / rcutsq\<close> is reached only
  after \<open>rsq < rcutsq\<close>, which gives \<open>rcutsq > 0\<close>. The kernel with guarded divisions
  therefore never takes the branch of a zero divisor: it returns what
  \<open>evalForceAndEnergy\<close> returns, for every \<open>rcutsq\<close>, \<open>lj1\<close>, \<open>lj2\<close>, every value
  of the out-parameters and every \<open>energy_shift\<close>.
\<close>

theorem divisors_nonzero:
  assumes "Fin 0 < rsq ev"
  shows "evalForceAndEnergy_guarded ev force_divr pair_eng energy_shift
           = Some (evalForceAndEnergy ev force_divr pair_eng energy_shift)
       \<and> neq (rsq ev) (Fin 0)
       \<and> (rsq ev < rcutsq ev \<longrightarrow> Fin 0 < rcutsq ev \<and> neq (rcutsq ev) (Fin 0))"
proof -
  have rsq_nonzero: "neq (rsq ev) (Fin 0)"
    using assms pos_neq_zero [of "rsq ev"] by (simp add: neq_zero)
  have rcutsq_nonzero: "Fin 0 < rcutsq ev \<and> neq (rcutsq ev) (Fin 0)" if "rsq ev < rcutsq ev"
  proof -
    have "Fin 0 < rcutsq ev"
      using assms that by (rule pos_less_cases)
    then show ?thesis
      using pos_neq_zero [of "rcutsq ev"] by (simp add: neq_zero)
  qed
  have "evalForceAndEnergy_guarded ev force_divr pair_eng energy_shift
          = Some (evalForceAndEnergy ev force_divr pair_eng energy_shift)"
  proof (cases "rsq ev < rcutsq ev")
    case True
    then show ?thesis
      using rsq_nonzero rcutsq_nonzero
      by (simp add: evalForceAndEnergy_guarded_def evalForceAndEnergy_def divide_guarded_def Let_def)
  next
    case False
    then show ?thesis
      by (simp add: evalForceAndEnergy_guarded_def evalForceAndEnergy_def)
  qed
  then show ?thesis
    using rsq_nonzero rcutsq_nonzero by simp
qed

theorem divisors_nonzero_witness:
  "Fin 0 < rsq \<lparr>rsq = Fin 1, rcutsq = Fin 4, lj1 = Fin 4, lj2 = Fin 4\<rparr>
   \<and> evalForceAndEnergy_guarded \<lparr>rsq = Fin 1, rcutsq = Fin 4, lj1 = Fin 4, lj2 = Fin 4\<rparr>
         (Fin 0) (Fin 0) True
       = Some (True, Fin 24, Fin (63 / 1024))
   \<and> evalForceAndEnergy \<lparr>rsq = Fin 1, rcutsq = Fin 4, lj1 = Fin 4, lj2 = Fin 4\<rparr>
         (Fin 0) (Fin 0) True
       = (True, Fin 24, Fin (63 / 1024))
   \<and> neq (Fin 1) (Fin 0) \<and> Fin 1 < Fin 4 \<and> Fin 0 < Fin 4 \<and> neq (Fin 4) (Fin 0)"
  using divisors_nonzero
    [of "\<lparr>rsq = Fin 1, rcutsq = Fin 4, lj1 = Fin 4, lj2 = Fin 4\<rparr>" "Fin 0" "Fin 0" True]
  by (simp add: evalForceAndEnergy_def Let_def)

text \<open>
  C6. The parameters built from \<open>sigma = 1.0\<close> and \<open>epsilon = 1.0\<close> have
  \<open>lj1 = 4.0\<close> and \<open>lj2 = 4.0\<close>. An evaluator built from them with \<open>rsq = 1.0\<close> and
  \<open>rcutsq = 9.0\<close> returns \<open>true\<close> with \<open>force_divr = 24\<close> and \<open>pair_eng = 0\<close> when
  \<open>energy_shift\<close> is false; with \<open>rsq = 10.0\<close>, beyond \<open>rcutsq = 9.0\<close>, it returns
  \<open>false\<close>.
\<close>

theorem concrete_scenario:
  "param_type (Fin 1) (Fin 1) managed = \<lparr>param_type.lj1 = Fin 4, param_type.lj2 = Fin 4\<rparr>
   \<and> evalForceAndEnergy
         (EvaluatorPairLJLow (Fin 1) (Fin 9) (param_type (Fin 1) (Fin 1) managed)) f e False
       = (True, Fin 24, Fin 0)
   \<and> Fin 9 < Fin 10
   \<and> fst (evalForceAndEnergy
         (EvaluatorPairLJLow (Fin 10) (Fin 9) (param_type (Fin 1) (Fin 1) managed)) f e energy_shift)
       = False"
  by (simp add: param_type_def pow.simps pow_finite_def is_integer_def
      EvaluatorPairLJLow_def evalForceAndEnergy_def Let_def)

section \<open>Parameters\<close>



text \<open>
  C10. The default parameters have \<open>lj1 = 0\<close> and \<open>lj2 = 0\<close>, and an evaluator built
  from them returns \<open>false\<close> (and writes neither out-parameter) for every \<open>rsq\<close>, every
  \<open>rcutsq\<close> and every \<open>energy_shift\<close>.
\<close>

theorem default_params_no_interaction:
  "param_type.lj1 param_type_default = Fin 0
   \<and> param_type.lj2 param_type_default = Fin 0
   \<and> fst (evalForceAndEnergy
         (EvaluatorPairLJLow rsq' rcutsq' param_type_default) f e energy_shift) = False
   \<and> evalForceAndEnergy (EvaluatorPairLJLow rsq' rcutsq' param_type_default) f e energy_shift
       = (False, f, e)"
  by (simp add: param_type_default_def EvaluatorPairLJLow_def evalForceAndEnergy_def)

section \<open>Capabilities and introspection\<close>

text \<open>
  C8, as amended. \<open>getShapeSpec\<close> fails for every evaluator: it throws a
  \<^verbatim>\<open>std::runtime_error\<close> and never returns a string. The message of the error,
  \<^verbatim>\<open>Shape definition not supported for this pair potential.\<close>, names the capability
  that is not supported (the shape definition); it does not name the potential variant.
\<close>

theorem getShapeSpec_fails:
  "getShapeSpec ev = Inl (runtime_error ''Shape definition not supported for this pair potential.'')
   \<and> getShapeSpec ev \<noteq> Inr s
   \<and> mentions ''Shape definition not supported for this pair potential.'' ''Shape definition''
   \<and> mentions ''Shape definition not supported for this pair potential.'' ''not supported''
   \<and> \<not> mentions ''Shape definition not supported for this pair potential.'' getName
   \<and> \<not> mentions ''Shape definition not supported for this pair potential.'' ''LJ''"
  using message_mentions_capability message_mentions_not_supported message_omits_name
    message_omits_LJ
  by (simp add: getShapeSpec_def)

text \<open>
  The claim as it was stated fails in its second half: the message of the error
  \<open>getShapeSpec\<close> throws does not contain the name \<^verbatim>\<open>ljlow\<close> of the variant, in any
  capitalisation.
\<close>

theorem getShapeSpec_counterexample:
  "getShapeSpec \<lparr>rsq = Fin 1, rcutsq = Fin 9, lj1 = Fin 4, lj2 = Fin 4\<rparr>
     = Inl (runtime_error ''Shape definition not supported for this pair potential.'')
   \<and> \<not> mentions ''Shape definition not supported for this pair potential.'' getName"
  using message_omits_name by (simp add: getShapeSpec_def)

text \<open>
  C9. \<open>needsDiameter\<close> and \<open>needsCharge\<close> are both false. For every evaluator and
  every \<open>di\<close>, \<open>dj\<close>, \<open>qi\<close>, \<open>qj\<close>, \<open>setDiameter\<close> and \<open>setCharge\<close> leave the evaluator
  as it was: the four stored fields are unchanged, and \<open>evalForceAndEnergy\<close> after
  either call, or after both, returns what it returns without the call.
\<close>

theorem setters_no_ops:
  "\<not> needsDiameter \<and> \<not> needsCharge
   \<and> setDiameter ev di dj = ev \<and> setCharge ev qi qj = ev
   \<and> rsq (setDiameter ev di dj) = rsq ev \<and> rcutsq (setDiameter ev di dj) = rcutsq ev
   \<and> lj1 (setDiameter ev di dj) = lj1 ev \<and> lj2 (setDiameter ev di dj) = lj2 ev
   \<and> rsq (setCharge ev qi qj) = rsq ev \<and> rcutsq (setCharge ev qi qj) = rcutsq ev
   \<and> lj1 (setCharge ev qi qj) = lj1 ev \<and> lj2 (setCharge ev qi qj) = lj2 ev
   \<and> evalForceAndEnergy (setDiameter ev di dj) f e s = evalForceAndEnergy ev f e s
   \<and> evalForceAndEnergy (setCharge ev qi qj) f e s = evalForceAndEnergy ev f e s
   \<and> evalForceAndEnergy (setCharge (setDiameter ev di dj) qi qj) f e s
       = evalForceAndEnergy ev f e s"
  by (simp add: needsDiameter_def needsCharge_def setDiameter_def setCharge_def)

end
